theory Spec2Isabelle
  imports Main "HOL-Library.Word"
begin

unbundle bit_operations_syntax

section \<open>Vector registers and their lane views\<close>

text \<open>
  An \<open>XMMRegister\<close> is a register handle: the source only ever compares two handles
  (\<open>dst == src1\<close>), so a handle is its register code. A register holds 128 bits.
  The register file maps every handle to its current contents.
\<close>

type_synonym XMMRegister = nat
type_synonym simd128 = "128 word"
type_synonym regfile = "XMMRegister \<Rightarrow> simd128"

text \<open>
  Byte \<open>i\<close> of a register is bits \<open>8 * i + 7 .. 8 * i\<close>; byte 0 is the least significant
  one. Wider lanes are pairs of narrower lanes, low half first (x86 is little-endian).
\<close>

definition to_bytes :: "simd128 \<Rightarrow> 8 word list" where
  "to_bytes v = map (\<lambda>i. ucast (drop_bit (8 * i) v)) [0..<16]"

definition of_bytes :: "8 word list \<Rightarrow> simd128" where
  "of_bytes bs = word_rcat (rev bs)"

fun pairs :: "'a::len word list \<Rightarrow> 'b::len word list" where
  "pairs (lo # hi # ws) = word_cat hi lo # pairs ws"
| "pairs _ = []"

fun halves :: "'b::len word list \<Rightarrow> 'a::len word list" where
  "halves [] = []"
| "halves (w # ws) = ucast w # ucast (drop_bit LENGTH('a) w) # halves ws"

definition lanes16 :: "simd128 \<Rightarrow> 16 word list" where
  "lanes16 v = pairs (to_bytes v)"

definition lanes32 :: "simd128 \<Rightarrow> 32 word list" where
  "lanes32 v = pairs (lanes16 v)"

definition lanes64 :: "simd128 \<Rightarrow> 64 word list" where
  "lanes64 v = pairs (lanes32 v)"

definition of_lanes16 :: "16 word list \<Rightarrow> simd128" where
  "of_lanes16 ws = of_bytes (halves ws)"

definition of_lanes32 :: "32 word list \<Rightarrow> simd128" where
  "of_lanes32 ds = of_lanes16 (halves ds)"

definition of_lanes64 :: "64 word list \<Rightarrow> simd128" where
  "of_lanes64 qs = of_lanes32 (halves qs)"

fun interleave :: "'a list \<Rightarrow> 'a list \<Rightarrow> 'a list" where
  "interleave (x # xs) (y # ys) = x # y # interleave xs ys"
| "interleave _ _ = []"

fun evens :: "'a list \<Rightarrow> 'a list" where
  "evens (x # y # xs) = x # evens xs"
| "evens xs = xs"


section \<open>The machine instructions the emitter uses\<close>

text \<open>
  What each instruction computes from the contents of its operand registers, after the
  x86 SSE/AVX instruction definitions. The legacy two-operand form \<open>op dst, src\<close>
  computes \<open>op_v (dst) (src)\<close> into \<open>dst\<close>; the three-operand form
  \<open>vop dst, src1, src2\<close> computes \<open>op_v (src1) (src2)\<close> into \<open>dst\<close>.
\<close>

definition punpckhbw_v :: "simd128 \<Rightarrow> simd128 \<Rightarrow> simd128" where
  "punpckhbw_v a b = of_bytes (interleave (drop 8 (to_bytes a)) (drop 8 (to_bytes b)))"

definition punpcklwd_v :: "simd128 \<Rightarrow> simd128 \<Rightarrow> simd128" where
  "punpcklwd_v a b = of_lanes16 (interleave (take 4 (lanes16 a)) (take 4 (lanes16 b)))"

definition punpckhwd_v :: "simd128 \<Rightarrow> simd128 \<Rightarrow> simd128" where
  "punpckhwd_v a b = of_lanes16 (interleave (drop 4 (lanes16 a)) (drop 4 (lanes16 b)))"

definition punpckldq_v :: "simd128 \<Rightarrow> simd128 \<Rightarrow> simd128" where
  "punpckldq_v a b = of_lanes32 (interleave (take 2 (lanes32 a)) (take 2 (lanes32 b)))"

definition punpckhdq_v :: "simd128 \<Rightarrow> simd128 \<Rightarrow> simd128" where
  "punpckhdq_v a b = of_lanes32 (interleave (drop 2 (lanes32 a)) (drop 2 (lanes32 b)))"

definition punpckhqdq_v :: "simd128 \<Rightarrow> simd128 \<Rightarrow> simd128" where
  "punpckhqdq_v a b = of_lanes64 (interleave (drop 1 (lanes64 a)) (drop 1 (lanes64 b)))"

text \<open>\<open>movhlps dst, src\<close>: the high quadword of \<open>src\<close> goes to the low quadword of
  \<open>dst\<close>; the high quadword of \<open>dst\<close> stays.\<close>

definition movhlps_v :: "simd128 \<Rightarrow> simd128 \<Rightarrow> simd128" where
  "movhlps_v d s = of_lanes64 (drop 1 (lanes64 s) @ drop 1 (lanes64 d))"

text \<open>\<open>pshufd dst, src, imm8\<close>: doubleword \<open>i\<close> of the result is the doubleword of
  \<open>src\<close> selected by bits \<open>2 * i + 1 .. 2 * i\<close> of the immediate.\<close>

definition pshufd_v :: "simd128 \<Rightarrow> 8 word \<Rightarrow> simd128" where
  "pshufd_v a imm =
     of_lanes32 (map (\<lambda>i. lanes32 a ! unat (drop_bit (2 * i) imm AND 3)) [0, 1, 2, 3])"

definition psraw_v :: "simd128 \<Rightarrow> 8 word \<Rightarrow> simd128" where
  "psraw_v a imm = of_lanes16 (map (signed_drop_bit (unat imm)) (lanes16 a))"

definition psrlw_v :: "simd128 \<Rightarrow> 8 word \<Rightarrow> simd128" where
  "psrlw_v a imm = of_lanes16 (map (drop_bit (unat imm)) (lanes16 a))"

definition psrad_v :: "simd128 \<Rightarrow> 8 word \<Rightarrow> simd128" where
  "psrad_v a imm = of_lanes32 (map (signed_drop_bit (unat imm)) (lanes32 a))"

definition pmullw_v :: "simd128 \<Rightarrow> simd128 \<Rightarrow> simd128" where
  "pmullw_v a b = of_lanes16 (map2 (\<lambda>x y. x * y) (lanes16 a) (lanes16 b))"

definition pmulhw_v :: "simd128 \<Rightarrow> simd128 \<Rightarrow> simd128" where
  "pmulhw_v a b =
     of_lanes16 (map2 (\<lambda>x y. ucast (drop_bit 16 (scast x * scast y :: 32 word)))
                   (lanes16 a) (lanes16 b))"

definition pmulhuw_v :: "simd128 \<Rightarrow> simd128 \<Rightarrow> simd128" where
  "pmulhuw_v a b =
     of_lanes16 (map2 (\<lambda>x y. ucast (drop_bit 16 (ucast x * ucast y :: 32 word)))
                   (lanes16 a) (lanes16 b))"

definition pmuldq_v :: "simd128 \<Rightarrow> simd128 \<Rightarrow> simd128" where
  "pmuldq_v a b =
     of_lanes64 (map2 (\<lambda>x y. scast x * scast y) (evens (lanes32 a)) (evens (lanes32 b)))"

definition pmuludq_v :: "simd128 \<Rightarrow> simd128 \<Rightarrow> simd128" where
  "pmuludq_v a b =
     of_lanes64 (map2 (\<lambda>x y. ucast x * ucast y) (evens (lanes32 a)) (evens (lanes32 b)))"

definition pmovsxbw_v :: "simd128 \<Rightarrow> simd128" where
  "pmovsxbw_v a = of_lanes16 (map scast (take 8 (to_bytes a)))"

definition pmovzxbw_v :: "simd128 \<Rightarrow> simd128" where
  "pmovzxbw_v a = of_lanes16 (map ucast (take 8 (to_bytes a)))"

definition pmovsxwd_v :: "simd128 \<Rightarrow> simd128" where
  "pmovsxwd_v a = of_lanes32 (map scast (take 4 (lanes16 a)))"

definition pmovzxwd_v :: "simd128 \<Rightarrow> simd128" where
  "pmovzxwd_v a = of_lanes32 (map ucast (take 4 (lanes16 a)))"

definition pmovsxdq_v :: "simd128 \<Rightarrow> simd128" where
  "pmovsxdq_v a = of_lanes64 (map scast (take 2 (lanes32 a)))"

text \<open>
  Modelled from the spec: the Instruction Emitter (the assembler class, absent from the
  sources at hand) has one method per machine instruction mnemonic, taking register
  handles (or a handle and an immediate byte) and appending one machine instruction to
  the instruction stream. An emitted instruction is a value of \<open>instr\<close>: its
  operation and its operands, in the legacy two-operand encoding (the first operand is
  read and overwritten) or the three-operand encoding (the first operand is only
  written). Each method of the assembler is named below as in the source.
\<close>

datatype unop = MOVAPS | PMOVSXBW | PMOVZXBW | PMOVSXWD | PMOVZXWD | PMOVSXDQ

datatype binop =
    PXOR | MOVHLPS
  | PUNPCKHBW | PUNPCKLWD | PUNPCKHWD | PUNPCKLDQ | PUNPCKHDQ | PUNPCKHQDQ
  | PMULLW | PMULHW | PMULHUW | PMULDQ | PMULUDQ

datatype shiftop = PSRAW | PSRLW | PSRAD

datatype instr =
    Unary unop XMMRegister XMMRegister
  | Shuffle XMMRegister XMMRegister "8 word"
  | Legacy binop XMMRegister XMMRegister
  | LegacyShift shiftop XMMRegister "8 word"
  | Vex binop XMMRegister XMMRegister XMMRegister
  | VexShift shiftop XMMRegister XMMRegister "8 word"

abbreviation movaps :: "XMMRegister \<Rightarrow> XMMRegister \<Rightarrow> instr" where
  "movaps \<equiv> Unary MOVAPS"
abbreviation pmovsxbw :: "XMMRegister \<Rightarrow> XMMRegister \<Rightarrow> instr" where
  "pmovsxbw \<equiv> Unary PMOVSXBW"
abbreviation pmovzxbw :: "XMMRegister \<Rightarrow> XMMRegister \<Rightarrow> instr" where
  "pmovzxbw \<equiv> Unary PMOVZXBW"
abbreviation pmovsxwd :: "XMMRegister \<Rightarrow> XMMRegister \<Rightarrow> instr" where
  "pmovsxwd \<equiv> Unary PMOVSXWD"
abbreviation pmovzxwd :: "XMMRegister \<Rightarrow> XMMRegister \<Rightarrow> instr" where
  "pmovzxwd \<equiv> Unary PMOVZXWD"
abbreviation pmovsxdq :: "XMMRegister \<Rightarrow> XMMRegister \<Rightarrow> instr" where
  "pmovsxdq \<equiv> Unary PMOVSXDQ"
abbreviation vpmovsxdq :: "XMMRegister \<Rightarrow> XMMRegister \<Rightarrow> instr" where
  "vpmovsxdq \<equiv> Unary PMOVSXDQ"
abbreviation pshufd :: "XMMRegister \<Rightarrow> XMMRegister \<Rightarrow> 8 word \<Rightarrow> instr" where
  "pshufd \<equiv> Shuffle"

abbreviation xorps :: "XMMRegister \<Rightarrow> XMMRegister \<Rightarrow> instr" where
  "xorps \<equiv> Legacy PXOR"
abbreviation movhlps :: "XMMRegister \<Rightarrow> XMMRegister \<Rightarrow> instr" where
  "movhlps \<equiv> Legacy MOVHLPS"
abbreviation punpckhbw :: "XMMRegister \<Rightarrow> XMMRegister \<Rightarrow> instr" where
  "punpckhbw \<equiv> Legacy PUNPCKHBW"
abbreviation punpcklwd :: "XMMRegister \<Rightarrow> XMMRegister \<Rightarrow> instr" where
  "punpcklwd \<equiv> Legacy PUNPCKLWD"
abbreviation punpckhwd :: "XMMRegister \<Rightarrow> XMMRegister \<Rightarrow> instr" where
  "punpckhwd \<equiv> Legacy PUNPCKHWD"
abbreviation punpckhdq :: "XMMRegister \<Rightarrow> XMMRegister \<Rightarrow> instr" where
  "punpckhdq \<equiv> Legacy PUNPCKHDQ"
abbreviation pmullw :: "XMMRegister \<Rightarrow> XMMRegister \<Rightarrow> instr" where
  "pmullw \<equiv> Legacy PMULLW"
abbreviation pmulhw :: "XMMRegister \<Rightarrow> XMMRegister \<Rightarrow> instr" where
  "pmulhw \<equiv> Legacy PMULHW"
abbreviation pmulhuw :: "XMMRegister \<Rightarrow> XMMRegister \<Rightarrow> instr" where
  "pmulhuw \<equiv> Legacy PMULHUW"
abbreviation pmuldq :: "XMMRegister \<Rightarrow> XMMRegister \<Rightarrow> instr" where
  "pmuldq \<equiv> Legacy PMULDQ"
abbreviation pmuludq :: "XMMRegister \<Rightarrow> XMMRegister \<Rightarrow> instr" where
  "pmuludq \<equiv> Legacy PMULUDQ"
abbreviation psraw :: "XMMRegister \<Rightarrow> 8 word \<Rightarrow> instr" where
  "psraw \<equiv> LegacyShift PSRAW"
abbreviation psrlw :: "XMMRegister \<Rightarrow> 8 word \<Rightarrow> instr" where
  "psrlw \<equiv> LegacyShift PSRLW"

abbreviation vpxor :: "XMMRegister \<Rightarrow> XMMRegister \<Rightarrow> XMMRegister \<Rightarrow> instr" where
  "vpxor \<equiv> Vex PXOR"
abbreviation vpunpckhbw :: "XMMRegister \<Rightarrow> XMMRegister \<Rightarrow> XMMRegister \<Rightarrow> instr" where
  "vpunpckhbw \<equiv> Vex PUNPCKHBW"
abbreviation vpunpcklwd :: "XMMRegister \<Rightarrow> XMMRegister \<Rightarrow> XMMRegister \<Rightarrow> instr" where
  "vpunpcklwd \<equiv> Vex PUNPCKLWD"
abbreviation vpunpckhwd :: "XMMRegister \<Rightarrow> XMMRegister \<Rightarrow> XMMRegister \<Rightarrow> instr" where
  "vpunpckhwd \<equiv> Vex PUNPCKHWD"
abbreviation vpunpckldq :: "XMMRegister \<Rightarrow> XMMRegister \<Rightarrow> XMMRegister \<Rightarrow> instr" where
  "vpunpckldq \<equiv> Vex PUNPCKLDQ"
abbreviation vpunpckhdq :: "XMMRegister \<Rightarrow> XMMRegister \<Rightarrow> XMMRegister \<Rightarrow> instr" where
  "vpunpckhdq \<equiv> Vex PUNPCKHDQ"
abbreviation vpunpckhqdq :: "XMMRegister \<Rightarrow> XMMRegister \<Rightarrow> XMMRegister \<Rightarrow> instr" where
  "vpunpckhqdq \<equiv> Vex PUNPCKHQDQ"
abbreviation vpmullw :: "XMMRegister \<Rightarrow> XMMRegister \<Rightarrow> XMMRegister \<Rightarrow> instr" where
  "vpmullw \<equiv> Vex PMULLW"
abbreviation vpmulhw :: "XMMRegister \<Rightarrow> XMMRegister \<Rightarrow> XMMRegister \<Rightarrow> instr" where
  "vpmulhw \<equiv> Vex PMULHW"
abbreviation vpmulhuw :: "XMMRegister \<Rightarrow> XMMRegister \<Rightarrow> XMMRegister \<Rightarrow> instr" where
  "vpmulhuw \<equiv> Vex PMULHUW"
abbreviation vpmuldq :: "XMMRegister \<Rightarrow> XMMRegister \<Rightarrow> XMMRegister \<Rightarrow> instr" where
  "vpmuldq \<equiv> Vex PMULDQ"
abbreviation vpmuludq :: "XMMRegister \<Rightarrow> XMMRegister \<Rightarrow> XMMRegister \<Rightarrow> instr" where
  "vpmuludq \<equiv> Vex PMULUDQ"
abbreviation vpsraw :: "XMMRegister \<Rightarrow> XMMRegister \<Rightarrow> 8 word \<Rightarrow> instr" where
  "vpsraw \<equiv> VexShift PSRAW"
abbreviation vpsrad :: "XMMRegister \<Rightarrow> XMMRegister \<Rightarrow> 8 word \<Rightarrow> instr" where
  "vpsrad \<equiv> VexShift PSRAD"

fun unop_v :: "unop \<Rightarrow> simd128 \<Rightarrow> simd128" where
  "unop_v MOVAPS a = a"
| "unop_v PMOVSXBW a = pmovsxbw_v a"
| "unop_v PMOVZXBW a = pmovzxbw_v a"
| "unop_v PMOVSXWD a = pmovsxwd_v a"
| "unop_v PMOVZXWD a = pmovzxwd_v a"
| "unop_v PMOVSXDQ a = pmovsxdq_v a"

fun binop_v :: "binop \<Rightarrow> simd128 \<Rightarrow> simd128 \<Rightarrow> simd128" where
  "binop_v PXOR a b = a XOR b"
| "binop_v MOVHLPS a b = movhlps_v a b"
| "binop_v PUNPCKHBW a b = punpckhbw_v a b"
| "binop_v PUNPCKLWD a b = punpcklwd_v a b"
| "binop_v PUNPCKHWD a b = punpckhwd_v a b"
| "binop_v PUNPCKLDQ a b = punpckldq_v a b"
| "binop_v PUNPCKHDQ a b = punpckhdq_v a b"
| "binop_v PUNPCKHQDQ a b = punpckhqdq_v a b"
| "binop_v PMULLW a b = pmullw_v a b"
| "binop_v PMULHW a b = pmulhw_v a b"
| "binop_v PMULHUW a b = pmulhuw_v a b"
| "binop_v PMULDQ a b = pmuldq_v a b"
| "binop_v PMULUDQ a b = pmuludq_v a b"

fun shiftop_v :: "shiftop \<Rightarrow> simd128 \<Rightarrow> 8 word \<Rightarrow> simd128" where
  "shiftop_v PSRAW a imm = psraw_v a imm"
| "shiftop_v PSRLW a imm = psrlw_v a imm"
| "shiftop_v PSRAD a imm = psrad_v a imm"

text \<open>Executing one instruction on the register file.\<close>

fun exec :: "instr \<Rightarrow> regfile \<Rightarrow> regfile" where
  "exec (Unary f d s) st = st(d := unop_v f (st s))"
| "exec (Shuffle d s imm) st = st(d := pshufd_v (st s) imm)"
| "exec (Legacy f d s) st = st(d := binop_v f (st d) (st s))"
| "exec (LegacyShift f d imm) st = st(d := shiftop_v f (st d) imm)"
| "exec (Vex f d a b) st = st(d := binop_v f (st a) (st b))"
| "exec (VexShift f d s imm) st = st(d := shiftop_v f (st s) imm)"

text \<open>Executing an emitted sequence, first instruction first.\<close>

fun run :: "instr list \<Rightarrow> regfile \<Rightarrow> regfile" where
  "run [] st = st"
| "run (i # is) st = run is (exec i st)"


section \<open>The emitter\<close>

text \<open>
  The Feature Oracle answers \<open>CpuFeatures::IsSupported\<close>. A \<open>CpuFeatureScope\<close> only
  permits the instructions of a feature for its extent and emits nothing, so it leaves
  no trace in the emitted sequence.
\<close>

datatype CpuFeature = AVX | SSE4_1

type_synonym CpuFeatures = "CpuFeature \<Rightarrow> bool"

definition IsSupported :: "CpuFeatures \<Rightarrow> CpuFeature \<Rightarrow> bool" where
  "IsSupported cpu f = cpu f"

text \<open>Each operation returns the instructions it appends to the stream, in order.\<close>

definition I16x8ExtMulHighS ::
  "CpuFeatures \<Rightarrow> XMMRegister \<Rightarrow> XMMRegister \<Rightarrow> XMMRegister \<Rightarrow> XMMRegister \<Rightarrow> instr list" where
  "I16x8ExtMulHighS cpu dst src1 src2 scratch =
     (if IsSupported cpu AVX then
        [vpunpckhbw scratch src1 src1,
         vpsraw scratch scratch 8,
         vpunpckhbw dst src2 src2,
         vpsraw dst dst 8,
         vpmullw dst dst scratch]
      else
        (if dst \<noteq> src1 then [movaps dst src1] else []) @
        [movaps scratch src2,
         punpckhbw dst dst,
         psraw dst 8,
         punpckhbw scratch scratch,
         psraw scratch 8,
         pmullw dst scratch])"

text \<open>\<open>std::swap(src1, src2)\<close> rebinds the two local handles for the rest of the call.\<close>

definition I16x8ExtMulHighU ::
  "CpuFeatures \<Rightarrow> XMMRegister \<Rightarrow> XMMRegister \<Rightarrow> XMMRegister \<Rightarrow> XMMRegister \<Rightarrow> instr list" where
  "I16x8ExtMulHighU cpu dst src1 src2 scratch =
     (if IsSupported cpu AVX then
        (if src1 = src2 then
           [vpxor scratch scratch scratch,
            vpunpckhbw dst src1 scratch,
            vpmullw dst dst dst]
         else
           (let (src1, src2) = (if dst = src2 then (src2, src1) else (src1, src2)) in
            [vpxor scratch scratch scratch,
             vpunpckhbw dst src1 scratch,
             vpunpckhbw scratch src2 scratch,
             vpmullw dst dst scratch]))
      else
        (if src1 = src2 then
           [xorps scratch scratch] @
           (if dst \<noteq> src1 then [movaps dst src1] else []) @
           [punpckhbw dst scratch,
            pmullw dst scratch]
         else
           (let (src1, src2, copy) =
                  (if dst = src2 then (src2, src1, [])
                   else if dst \<noteq> src1 then (src1, src2, [movaps dst src1])
                   else (src1, src2, [])) in
            copy @
            [xorps scratch scratch,
             punpckhbw dst scratch,
             punpckhbw scratch src2,
             psrlw scratch 8,
             pmullw dst scratch])))"

definition I16x8SConvertI8x16High ::
  "CpuFeatures \<Rightarrow> XMMRegister \<Rightarrow> XMMRegister \<Rightarrow> instr list" where
  "I16x8SConvertI8x16High cpu dst src =
     (if IsSupported cpu AVX then
        [vpunpckhbw dst src src,
         vpsraw dst dst 8]
      else if dst = src then
        [movhlps dst src,
         pmovsxbw dst dst]
      else
        [pshufd dst src 0xEE,
         pmovsxbw dst dst])"

definition I16x8UConvertI8x16High ::
  "CpuFeatures \<Rightarrow> XMMRegister \<Rightarrow> XMMRegister \<Rightarrow> XMMRegister \<Rightarrow> instr list" where
  "I16x8UConvertI8x16High cpu dst src scratch =
     (if IsSupported cpu AVX then
        (let tmp = (if dst = src then scratch else dst) in
         [vpxor tmp tmp tmp,
          vpunpckhbw dst src tmp])
      else if dst = src then
        [xorps scratch scratch,
         punpckhbw dst scratch]
      else
        [pshufd dst src 0xEE,
         pmovzxbw dst dst])"

text \<open>
  \<open>DCHECK_EQ(dst, src1)\<close> is compiled into debug builds only, where a failed check
  aborts the call; a release build has no trace of it.
\<close>

datatype error = DCheckFailed

definition I32x4ExtMul ::
  "CpuFeatures \<Rightarrow> bool \<Rightarrow> XMMRegister \<Rightarrow> XMMRegister \<Rightarrow> XMMRegister \<Rightarrow> XMMRegister \<Rightarrow>
   bool \<Rightarrow> bool \<Rightarrow> error + instr list" where
  "I32x4ExtMul cpu debug dst src1 src2 scratch low is_signed =
     (if IsSupported cpu AVX then
        Inr [vpmullw scratch src1 src2,
             (if is_signed then vpmulhw dst src1 src2 else vpmulhuw dst src1 src2),
             (if low then vpunpcklwd dst scratch dst else vpunpckhwd dst scratch dst)]
      else if debug \<and> dst \<noteq> src1 then
        Inl DCheckFailed
      else
        Inr [movaps scratch src1,
             pmullw dst src2,
             (if is_signed then pmulhw scratch src2 else pmulhuw scratch src2),
             (if low then punpcklwd dst scratch else punpckhwd dst scratch)])"

definition I32x4SConvertI16x8High ::
  "CpuFeatures \<Rightarrow> XMMRegister \<Rightarrow> XMMRegister \<Rightarrow> instr list" where
  "I32x4SConvertI16x8High cpu dst src =
     (if IsSupported cpu AVX then
        [vpunpckhwd dst src src,
         vpsrad dst dst 16]
      else if dst = src then
        [movhlps dst src,
         pmovsxwd dst dst]
      else
        [pshufd dst src 0xEE,
         pmovsxwd dst dst])"

definition I32x4UConvertI16x8High ::
  "CpuFeatures \<Rightarrow> XMMRegister \<Rightarrow> XMMRegister \<Rightarrow> XMMRegister \<Rightarrow> instr list" where
  "I32x4UConvertI16x8High cpu dst src scratch =
     (if IsSupported cpu AVX then
        (let tmp = (if dst = src then scratch else dst) in
         [vpxor tmp tmp tmp,
          vpunpckhwd dst src tmp])
      else if dst = src then
        [xorps scratch scratch,
         punpckhwd dst scratch]
      else
        [pshufd dst src 0xEE,
         pmovzxwd dst dst])"

definition I64x2ExtMul ::
  "CpuFeatures \<Rightarrow> XMMRegister \<Rightarrow> XMMRegister \<Rightarrow> XMMRegister \<Rightarrow> XMMRegister \<Rightarrow>
   bool \<Rightarrow> bool \<Rightarrow> instr list" where
  "I64x2ExtMul cpu dst src1 src2 scratch low is_signed =
     (if IsSupported cpu AVX then
        (if low then
           [vpunpckldq scratch src1 src1,
            vpunpckldq dst src2 src2]
         else
           [vpunpckhdq scratch src1 src1,
            vpunpckhdq dst src2 src2]) @
        (if is_signed then [vpmuldq dst scratch dst] else [vpmuludq dst scratch dst])
      else
        (let mask = (if low then 0x50 else 0xFA) in
         [pshufd scratch src1 mask,
          pshufd dst src2 mask] @
         (if is_signed then [pmuldq dst scratch] else [pmuludq dst scratch])))"

definition I64x2SConvertI32x4High ::
  "CpuFeatures \<Rightarrow> XMMRegister \<Rightarrow> XMMRegister \<Rightarrow> instr list" where
  "I64x2SConvertI32x4High cpu dst src =
     (if IsSupported cpu AVX then
        [vpunpckhqdq dst src src,
         vpmovsxdq dst dst]
      else
        (if dst = src then [movhlps dst src] else [pshufd dst src 0xEE]) @
        [pmovsxdq dst dst])"

definition I64x2UConvertI32x4High ::
  "CpuFeatures \<Rightarrow> XMMRegister \<Rightarrow> XMMRegister \<Rightarrow> XMMRegister \<Rightarrow> instr list" where
  "I64x2UConvertI32x4High cpu dst src scratch =
     (if IsSupported cpu AVX then
        [vpxor scratch scratch scratch,
         vpunpckhdq dst src scratch]
      else
        (if dst \<noteq> src then [movaps dst src] else []) @
        [xorps scratch scratch,
         punpckhdq dst scratch])"


text \<open>
  Running the outcome of a call that may have been stopped by a failed check, and
  reading one register of the outcome.
\<close>

fun run_checked :: "error + instr list \<Rightarrow> regfile \<Rightarrow> error + regfile" where
  "run_checked (Inl e) st = Inl e"
| "run_checked (Inr is) st = Inr (run is st)"

fun reg_of :: "XMMRegister \<Rightarrow> error + regfile \<Rightarrow> error + simd128" where
  "reg_of r (Inl e) = Inl e"
| "reg_of r (Inr st) = Inr (st r)"


section \<open>The scalar reference\<close>

text \<open>
  The reference the operations are compared with works lane by lane on the values of
  the sources and knows nothing of registers: it widens each lane of the chosen half
  (sign- or zero-extending) and, for the multiplies, multiplies the widened lanes.
\<close>

definition widen :: "bool \<Rightarrow> 'a::len word \<Rightarrow> 'b::len word" where
  "widen is_signed x = (if is_signed then scast x else ucast x)"

definition ref_ConvertI8x16High :: "bool \<Rightarrow> simd128 \<Rightarrow> simd128" where
  "ref_ConvertI8x16High is_signed a = of_lanes16 (map (widen is_signed) (drop 8 (to_bytes a)))"

definition ref_ConvertI16x8High :: "bool \<Rightarrow> simd128 \<Rightarrow> simd128" where
  "ref_ConvertI16x8High is_signed a = of_lanes32 (map (widen is_signed) (drop 4 (lanes16 a)))"

definition ref_ConvertI32x4High :: "bool \<Rightarrow> simd128 \<Rightarrow> simd128" where
  "ref_ConvertI32x4High is_signed a = of_lanes64 (map (widen is_signed) (drop 2 (lanes32 a)))"

definition ref_I16x8ExtMulHigh :: "bool \<Rightarrow> simd128 \<Rightarrow> simd128 \<Rightarrow> simd128" where
  "ref_I16x8ExtMulHigh is_signed a b =
     of_lanes16 (map2 (\<lambda>x y. widen is_signed x * widen is_signed y)
                   (drop 8 (to_bytes a)) (drop 8 (to_bytes b)))"

definition ref_I32x4ExtMul :: "bool \<Rightarrow> bool \<Rightarrow> simd128 \<Rightarrow> simd128 \<Rightarrow> simd128" where
  "ref_I32x4ExtMul low is_signed a b =
     of_lanes32 (map2 (\<lambda>x y. widen is_signed x * widen is_signed y)
                   (if low then take 4 (lanes16 a) else drop 4 (lanes16 a))
                   (if low then take 4 (lanes16 b) else drop 4 (lanes16 b)))"

definition ref_I64x2ExtMul :: "bool \<Rightarrow> bool \<Rightarrow> simd128 \<Rightarrow> simd128 \<Rightarrow> simd128" where
  "ref_I64x2ExtMul low is_signed a b =
     of_lanes64 (map2 (\<lambda>x y. widen is_signed x * widen is_signed y)
                   (if low then take 2 (lanes32 a) else drop 2 (lanes32 a))
                   (if low then take 2 (lanes32 b) else drop 2 (lanes32 b)))"


section \<open>The descriptions the operations are compared with\<close>

text \<open>
  The steps of the general 32-bit extended multiply as its header comment gives them:
  the low words of the products into scratch, the high words into the destination, then
  scratch and destination interleaved into the destination.
\<close>

definition mul_high_v :: "bool \<Rightarrow> simd128 \<Rightarrow> simd128 \<Rightarrow> simd128" where
  "mul_high_v is_signed a b = (if is_signed then pmulhw_v a b else pmulhuw_v a b)"

definition interleave_wd_v :: "bool \<Rightarrow> simd128 \<Rightarrow> simd128 \<Rightarrow> simd128" where
  "interleave_wd_v low a b = (if low then punpcklwd_v a b else punpckhwd_v a b)"

definition I32x4ExtMul_steps ::
  "XMMRegister \<Rightarrow> XMMRegister \<Rightarrow> XMMRegister \<Rightarrow> XMMRegister \<Rightarrow> bool \<Rightarrow> bool \<Rightarrow>
   regfile \<Rightarrow> regfile" where
  "I32x4ExtMul_steps dst src1 src2 scratch low is_signed st =
     (let st1 = st(scratch := pmullw_v (st src1) (st src2));
          st2 = st1(dst := mul_high_v is_signed (st1 src1) (st1 src2));
          st3 = st2(dst := interleave_wd_v low (st2 scratch) (st2 dst))
      in st3)"

text \<open>
  The steps of the legacy form of the same operation as its branch is written: source-1
  copied into scratch, the low words of the products into the destination, the high
  words into scratch, then destination and scratch interleaved into the destination.
\<close>

definition I32x4ExtMul_legacy_steps ::
  "XMMRegister \<Rightarrow> XMMRegister \<Rightarrow> XMMRegister \<Rightarrow> XMMRegister \<Rightarrow> bool \<Rightarrow> bool \<Rightarrow>
   regfile \<Rightarrow> regfile" where
  "I32x4ExtMul_legacy_steps dst src1 src2 scratch low is_signed st =
     (let st1 = st(scratch := st src1);
          st2 = st1(dst := pmullw_v (st1 dst) (st1 src2));
          st3 = st2(scratch := mul_high_v is_signed (st2 scratch) (st2 src2));
          st4 = st3(dst := interleave_wd_v low (st3 dst) (st3 scratch))
      in st4)"

text \<open>
  Duplicating the 32-bit sub-lanes of one source: the even ones (0 and 2), the odd ones
  (1 and 3), and the two of one half (0 and 1, or 2 and 3).
\<close>

definition dup_even_odd :: "bool \<Rightarrow> simd128 \<Rightarrow> simd128" where
  "dup_even_odd evn a =
     (let i = (if evn then 0 else 1) in
      of_lanes32 [lanes32 a ! i, lanes32 a ! i, lanes32 a ! (i + 2), lanes32 a ! (i + 2)])"

definition dup_half :: "bool \<Rightarrow> simd128 \<Rightarrow> simd128" where
  "dup_half low a =
     (let i = (if low then 0 else 2) in
      of_lanes32 [lanes32 a ! i, lanes32 a ! i, lanes32 a ! (i + 1), lanes32 a ! (i + 1)])"

definition mul_wide_v :: "bool \<Rightarrow> simd128 \<Rightarrow> simd128 \<Rightarrow> simd128" where
  "mul_wide_v is_signed a b = (if is_signed then pmuldq_v a b else pmuludq_v a b)"


section \<open>Concrete processors and register files\<close>

definition avx_cpu :: CpuFeatures where
  "avx_cpu f = True"

definition sse_cpu :: CpuFeatures where
  "sse_cpu f = (f = SSE4_1)"

text \<open>Every register \<open>r\<close> holds sixteen bytes of value \<open>r + 1\<close>.\<close>

definition splat8 :: "8 word \<Rightarrow> simd128" where
  "splat8 b = of_bytes [b, b, b, b, b, b, b, b, b, b, b, b, b, b, b, b]"

definition regs_splat8 :: regfile where
  "regs_splat8 r = splat8 (of_nat (r + 1))"

text \<open>Every register \<open>r\<close> holds eight 16-bit lanes of value \<open>256 * (r + 1)\<close>.\<close>

definition splat16 :: "16 word \<Rightarrow> simd128" where
  "splat16 w = of_lanes16 [w, w, w, w, w, w, w, w]"

definition regs_splat16 :: regfile where
  "regs_splat16 r = splat16 (256 * of_nat (r + 1))"

text \<open>Every register \<open>r\<close> holds the 32-bit lanes \<open>r + 1, r + 2, r + 3, r + 4\<close>.\<close>

definition regs_count32 :: regfile where
  "regs_count32 r = of_lanes32 [of_nat r + 1, of_nat r + 2, of_nat r + 3, of_nat r + 4]"

text \<open>Every register holds the bytes 1 to 16.\<close>

definition regs_bytes_1_16 :: regfile where
  "regs_bytes_1_16 r = of_bytes [1, 2, 3, 4, 5, 6, 7, 8, 9, 10, 11, 12, 13, 14, 15, 16]"


section \<open>Bytes, lanes and small word facts\<close>

lemma bit_of_bytes:
  "bit (of_bytes bs) n \<longleftrightarrow> n < 128 \<and> n div 8 < length bs \<and> bit (bs ! (n div 8)) (n mod 8)"
  unfolding of_bytes_def word_rcat_def
  using bit_horner_sum_uint_exp_iff [where ?'a = 8, of "bs" n]
  by (simp add: bit_word_of_int_iff)

lemma length_to_bytes [simp]: "length (to_bytes v) = 16"
  by (simp add: to_bytes_def)

lemma nth_to_bytes: "i < 16 \<Longrightarrow> to_bytes v ! i = ucast (drop_bit (8 * i) v)"
  by (simp add: to_bytes_def)

lemma of_bytes_to_bytes [simp]: "of_bytes (to_bytes v) = v"
proof (rule bit_word_eqI)
  fix n assume "n < LENGTH(128)"
  then have n: "n < 128" by simp
  then have d: "n div 8 < 16" by simp
  have "8 * (n div 8) + n mod 8 = n" by simp
  with n d show "bit (of_bytes (to_bytes v)) n \<longleftrightarrow> bit v n"
    by (auto simp add: bit_of_bytes nth_to_bytes bit_ucast_iff bit_drop_bit_eq)
qed

lemma to_bytes_of_bytes [simp]:
  assumes "length bs = 16" shows "to_bytes (of_bytes bs) = bs"
proof (rule nth_equalityI)
  show "length (to_bytes (of_bytes bs)) = length bs" using assms by simp
next
  fix i assume "i < length (to_bytes (of_bytes bs))"
  then have i: "i < 16" by simp
  show "to_bytes (of_bytes bs) ! i = bs ! i"
  proof (rule bit_word_eqI)
    fix n assume "n < LENGTH(8)"
    then have n: "n < 8" by simp
    with i have "8 * i + n < 128" by simp
    moreover from n have "(8 * i + n) div 8 = i" "(8 * i + n) mod 8 = n" by simp_all
    ultimately show "bit (to_bytes (of_bytes bs) ! i) n \<longleftrightarrow> bit (bs ! i) n"
      using i n assms
      by (simp add: nth_to_bytes bit_ucast_iff bit_drop_bit_eq bit_of_bytes)
  qed
qed

lemma simd128_bytes:
  obtains b0 b1 b2 b3 b4 b5 b6 b7 b8 b9 b10 b11 b12 b13 b14 b15
  where "v = of_bytes [b0, b1, b2, b3, b4, b5, b6, b7, b8, b9, b10, b11, b12, b13, b14, b15]"
proof -
  have "v = of_bytes (to_bytes v)" by simp
  also have "to_bytes v = map (\<lambda>i. ucast (drop_bit (8 * i) v))
      [0, 1, 2, 3, 4, 5, 6, 7, 8, 9, 10, 11, 12, 13, 14, 15]"
  proof -
    have "[0..<16] = [0, 1, 2, 3, 4, 5, 6, 7, 8, 9, 10, 11, 12, 13, 14, 15::nat]"
      by code_simp
    then show ?thesis unfolding to_bytes_def by simp
  qed
  finally show thesis using that by simp
qed

lemma cat_halves_16 [simp]:
  "word_cat (ucast (drop_bit 8 w) :: 8 word) (ucast w :: 8 word) = (w :: 16 word)"
  by (rule bit_word_eqI) (auto simp add: bit_simps)
lemma cat_halves_32 [simp]:
  "word_cat (ucast (drop_bit 16 w) :: 16 word) (ucast w :: 16 word) = (w :: 32 word)"
  by (rule bit_word_eqI) (auto simp add: bit_simps)
lemma cat_halves_64 [simp]:
  "word_cat (ucast (drop_bit 32 w) :: 32 word) (ucast w :: 32 word) = (w :: 64 word)"
  by (rule bit_word_eqI) (auto simp add: bit_simps)

lemma low_cat_16 [simp]: "ucast (word_cat (hi :: 8 word) (lo :: 8 word) :: 16 word) = lo"
  by (rule bit_word_eqI) (auto simp add: bit_simps)
lemma low_cat_32 [simp]: "ucast (word_cat (hi :: 16 word) (lo :: 16 word) :: 32 word) = lo"
  by (rule bit_word_eqI) (auto simp add: bit_simps)
lemma low_cat_64 [simp]: "ucast (word_cat (hi :: 32 word) (lo :: 32 word) :: 64 word) = lo"
  by (rule bit_word_eqI) (auto simp add: bit_simps)

lemma high_cat_16 [simp]:
  "ucast (drop_bit 8 (word_cat (hi :: 8 word) (lo :: 8 word) :: 16 word)) = hi"
  by (rule bit_word_eqI) (auto simp add: bit_simps)
lemma high_cat_32 [simp]:
  "ucast (drop_bit 16 (word_cat (hi :: 16 word) (lo :: 16 word) :: 32 word)) = hi"
  by (rule bit_word_eqI) (auto simp add: bit_simps)
lemma high_cat_64 [simp]:
  "ucast (drop_bit 32 (word_cat (hi :: 32 word) (lo :: 32 word) :: 64 word)) = hi"
  by (rule bit_word_eqI) (auto simp add: bit_simps)

lemma sext_by_shift_16 [simp]:
  "signed_drop_bit 8 (word_cat b b :: 16 word) = scast (b :: 8 word)"
  by (rule bit_word_eqI) (auto simp add: bit_simps)
lemma sext_by_shift_32 [simp]:
  "signed_drop_bit 16 (word_cat b b :: 32 word) = scast (b :: 16 word)"
  by (rule bit_word_eqI) (auto simp add: bit_simps)
lemma zext_by_shift_16 [simp]:
  "drop_bit 8 (word_cat b (0 :: 8 word) :: 16 word) = ucast (b :: 8 word)"
  by (rule bit_word_eqI) (auto simp add: bit_simps dest: bit_imp_le_length)

lemmas lane_defs = lanes16_def lanes32_def lanes64_def of_lanes16_def of_lanes32_def of_lanes64_def

lemma upt_16: "[0..<16] = [0, 1, 2, 3, 4, 5, 6, 7, 8, 9, 10, 11, 12, 13, 14, 15::nat]"
  by code_simp

lemma zero_bytes: "(0::simd128) = of_bytes [0, 0, 0, 0, 0, 0, 0, 0, 0, 0, 0, 0, 0, 0, 0, 0]"
proof -
  have "to_bytes 0 = [0, 0, 0, 0, 0, 0, 0, 0, 0, 0, 0, 0, 0, 0, 0, 0]"
    by (simp add: to_bytes_def upt_16)
  then show ?thesis by (metis of_bytes_to_bytes)
qed

lemma take_bit_mult_inner:
  fixes x y :: int
  assumes "m \<le> n"
  shows "take_bit m (take_bit n x * take_bit n y) = take_bit m (x * y)"
proof -
  have "take_bit m (take_bit n x * take_bit n y) =
        take_bit m (take_bit m (take_bit n x) * take_bit m (take_bit n y))"
    by (simp only: take_bit_mult)
  also have "\<dots> = take_bit m (take_bit m x * take_bit m y)"
    using assms by (simp add: min_def)
  also have "\<dots> = take_bit m (x * y)"
    by (simp only: take_bit_mult)
  finally show ?thesis .
qed

lemma ucast_mult_down: "(ucast (x * y :: 32 word) :: 16 word) = ucast x * ucast y"
  by transfer (simp add: take_bit_mult_inner)

lemma low_scast_16 [simp]: "ucast (scast (a :: 16 word) :: 32 word) = a"
  by (rule bit_word_eqI) (auto simp add: bit_simps)

lemma low_ucast_8 [simp]: "ucast (ucast (a :: 8 word) :: 16 word) = a"
  by (rule bit_word_eqI) (auto simp add: bit_simps)
lemma low_ucast_16 [simp]: "ucast (ucast (a :: 16 word) :: 32 word) = a"
  by (rule bit_word_eqI) (auto simp add: bit_simps)
lemma low_ucast_32 [simp]: "ucast (ucast (a :: 32 word) :: 64 word) = a"
  by (rule bit_word_eqI) (auto simp add: bit_simps)

lemma high_ucast_8 [simp]: "ucast (drop_bit 8 (ucast (a :: 8 word) :: 16 word)) = (0 :: 8 word)"
  by (rule bit_word_eqI) (auto simp add: bit_simps dest: bit_imp_le_length)
lemma high_ucast_16 [simp]: "ucast (drop_bit 16 (ucast (a :: 16 word) :: 32 word)) = (0 :: 16 word)"
  by (rule bit_word_eqI) (auto simp add: bit_simps dest: bit_imp_le_length)
lemma high_ucast_32 [simp]: "ucast (drop_bit 32 (ucast (a :: 32 word) :: 64 word)) = (0 :: 32 word)"
  by (rule bit_word_eqI) (auto simp add: bit_simps dest: bit_imp_le_length)

lemma low_mul_signed [simp]:
  "ucast (scast (a :: 16 word) * scast (b :: 16 word) :: 32 word) = a * b"
  by (simp add: ucast_mult_down)
lemma low_mul_unsigned [simp]:
  "ucast (ucast (a :: 16 word) * ucast (b :: 16 word) :: 32 word) = a * b"
  by (simp add: ucast_mult_down)

lemmas instr_v_defs = punpckhbw_v_def punpcklwd_v_def punpckhwd_v_def punpckldq_v_def
  punpckhdq_v_def punpckhqdq_v_def movhlps_v_def pshufd_v_def psraw_v_def psrlw_v_def
  psrad_v_def pmullw_v_def pmulhw_v_def pmulhuw_v_def pmuldq_v_def pmuludq_v_def
  pmovsxbw_v_def pmovzxbw_v_def pmovsxwd_v_def pmovzxwd_v_def pmovsxdq_v_def

lemmas ref_defs = ref_ConvertI8x16High_def ref_ConvertI16x8High_def ref_ConvertI32x4High_def
  ref_I16x8ExtMulHigh_def ref_I32x4ExtMul_def ref_I64x2ExtMul_def widen_def

lemma cvt8_s_avx: "psraw_v (punpckhbw_v a a) 8 = ref_ConvertI8x16High True a"
proof -
  obtain a0 a1 a2 a3 a4 a5 a6 a7 a8 a9 a10 a11 a12 a13 a14 a15
    where a: "a = of_bytes [a0, a1, a2, a3, a4, a5, a6, a7, a8, a9, a10, a11, a12, a13, a14, a15]"
    by (rule simd128_bytes)
  show ?thesis by (simp add: a instr_v_defs ref_defs lane_defs)
qed

lemma cvt8_s_movhlps: "pmovsxbw_v (movhlps_v a a) = ref_ConvertI8x16High True a"
proof -
  obtain a0 a1 a2 a3 a4 a5 a6 a7 a8 a9 a10 a11 a12 a13 a14 a15
    where a: "a = of_bytes [a0, a1, a2, a3, a4, a5, a6, a7, a8, a9, a10, a11, a12, a13, a14, a15]"
    by (rule simd128_bytes)
  show ?thesis by (simp add: a instr_v_defs ref_defs lane_defs)
qed

lemma cvt8_s_pshufd: "pmovsxbw_v (pshufd_v a 0xEE) = ref_ConvertI8x16High True a"
proof -
  obtain a0 a1 a2 a3 a4 a5 a6 a7 a8 a9 a10 a11 a12 a13 a14 a15
    where a: "a = of_bytes [a0, a1, a2, a3, a4, a5, a6, a7, a8, a9, a10, a11, a12, a13, a14, a15]"
    by (rule simd128_bytes)
  show ?thesis by (simp add: a instr_v_defs ref_defs lane_defs)
qed

lemma cvt8_u_unpck: "punpckhbw_v a 0 = ref_ConvertI8x16High False a"
proof -
  obtain a0 a1 a2 a3 a4 a5 a6 a7 a8 a9 a10 a11 a12 a13 a14 a15
    where a: "a = of_bytes [a0, a1, a2, a3, a4, a5, a6, a7, a8, a9, a10, a11, a12, a13, a14, a15]"
    by (rule simd128_bytes)
  show ?thesis by (simp add: a zero_bytes instr_v_defs ref_defs lane_defs)
qed

lemma cvt8_u_unpck_shift: "psrlw_v (punpckhbw_v 0 a) 8 = ref_ConvertI8x16High False a"
proof -
  obtain a0 a1 a2 a3 a4 a5 a6 a7 a8 a9 a10 a11 a12 a13 a14 a15
    where a: "a = of_bytes [a0, a1, a2, a3, a4, a5, a6, a7, a8, a9, a10, a11, a12, a13, a14, a15]"
    by (rule simd128_bytes)
  show ?thesis by (simp add: a zero_bytes instr_v_defs ref_defs lane_defs)
qed

lemma cvt8_u_pshufd: "pmovzxbw_v (pshufd_v a 0xEE) = ref_ConvertI8x16High False a"
proof -
  obtain a0 a1 a2 a3 a4 a5 a6 a7 a8 a9 a10 a11 a12 a13 a14 a15
    where a: "a = of_bytes [a0, a1, a2, a3, a4, a5, a6, a7, a8, a9, a10, a11, a12, a13, a14, a15]"
    by (rule simd128_bytes)
  show ?thesis by (simp add: a instr_v_defs ref_defs lane_defs)
qed

lemma cvt16_s_avx: "psrad_v (punpckhwd_v a a) 16 = ref_ConvertI16x8High True a"
proof -
  obtain a0 a1 a2 a3 a4 a5 a6 a7 a8 a9 a10 a11 a12 a13 a14 a15
    where a: "a = of_bytes [a0, a1, a2, a3, a4, a5, a6, a7, a8, a9, a10, a11, a12, a13, a14, a15]"
    by (rule simd128_bytes)
  show ?thesis by (simp add: a instr_v_defs ref_defs lane_defs)
qed

lemma cvt16_s_movhlps: "pmovsxwd_v (movhlps_v a a) = ref_ConvertI16x8High True a"
proof -
  obtain a0 a1 a2 a3 a4 a5 a6 a7 a8 a9 a10 a11 a12 a13 a14 a15
    where a: "a = of_bytes [a0, a1, a2, a3, a4, a5, a6, a7, a8, a9, a10, a11, a12, a13, a14, a15]"
    by (rule simd128_bytes)
  show ?thesis by (simp add: a instr_v_defs ref_defs lane_defs)
qed

lemma cvt16_s_pshufd: "pmovsxwd_v (pshufd_v a 0xEE) = ref_ConvertI16x8High True a"
proof -
  obtain a0 a1 a2 a3 a4 a5 a6 a7 a8 a9 a10 a11 a12 a13 a14 a15
    where a: "a = of_bytes [a0, a1, a2, a3, a4, a5, a6, a7, a8, a9, a10, a11, a12, a13, a14, a15]"
    by (rule simd128_bytes)
  show ?thesis by (simp add: a instr_v_defs ref_defs lane_defs)
qed

lemma cvt16_u_unpck: "punpckhwd_v a 0 = ref_ConvertI16x8High False a"
proof -
  obtain a0 a1 a2 a3 a4 a5 a6 a7 a8 a9 a10 a11 a12 a13 a14 a15
    where a: "a = of_bytes [a0, a1, a2, a3, a4, a5, a6, a7, a8, a9, a10, a11, a12, a13, a14, a15]"
    by (rule simd128_bytes)
  show ?thesis by (simp add: a zero_bytes instr_v_defs ref_defs lane_defs)
qed

lemma cvt16_u_pshufd: "pmovzxwd_v (pshufd_v a 0xEE) = ref_ConvertI16x8High False a"
proof -
  obtain a0 a1 a2 a3 a4 a5 a6 a7 a8 a9 a10 a11 a12 a13 a14 a15
    where a: "a = of_bytes [a0, a1, a2, a3, a4, a5, a6, a7, a8, a9, a10, a11, a12, a13, a14, a15]"
    by (rule simd128_bytes)
  show ?thesis by (simp add: a instr_v_defs ref_defs lane_defs)
qed

lemma cvt32_s_avx: "pmovsxdq_v (punpckhqdq_v a a) = ref_ConvertI32x4High True a"
proof -
  obtain a0 a1 a2 a3 a4 a5 a6 a7 a8 a9 a10 a11 a12 a13 a14 a15
    where a: "a = of_bytes [a0, a1, a2, a3, a4, a5, a6, a7, a8, a9, a10, a11, a12, a13, a14, a15]"
    by (rule simd128_bytes)
  show ?thesis by (simp add: a instr_v_defs ref_defs lane_defs)
qed

lemma cvt32_s_movhlps: "pmovsxdq_v (movhlps_v a a) = ref_ConvertI32x4High True a"
proof -
  obtain a0 a1 a2 a3 a4 a5 a6 a7 a8 a9 a10 a11 a12 a13 a14 a15
    where a: "a = of_bytes [a0, a1, a2, a3, a4, a5, a6, a7, a8, a9, a10, a11, a12, a13, a14, a15]"
    by (rule simd128_bytes)
  show ?thesis by (simp add: a instr_v_defs ref_defs lane_defs)
qed

lemma cvt32_s_pshufd: "pmovsxdq_v (pshufd_v a 0xEE) = ref_ConvertI32x4High True a"
proof -
  obtain a0 a1 a2 a3 a4 a5 a6 a7 a8 a9 a10 a11 a12 a13 a14 a15
    where a: "a = of_bytes [a0, a1, a2, a3, a4, a5, a6, a7, a8, a9, a10, a11, a12, a13, a14, a15]"
    by (rule simd128_bytes)
  show ?thesis by (simp add: a instr_v_defs ref_defs lane_defs)
qed

lemma cvt32_u_unpck: "punpckhdq_v a 0 = ref_ConvertI32x4High False a"
proof -
  obtain a0 a1 a2 a3 a4 a5 a6 a7 a8 a9 a10 a11 a12 a13 a14 a15
    where a: "a = of_bytes [a0, a1, a2, a3, a4, a5, a6, a7, a8, a9, a10, a11, a12, a13, a14, a15]"
    by (rule simd128_bytes)
  show ?thesis by (simp add: a zero_bytes instr_v_defs ref_defs lane_defs)
qed

lemma mul8: "pmullw_v (ref_ConvertI8x16High sg a) (ref_ConvertI8x16High sg b) = ref_I16x8ExtMulHigh sg a b"
proof -
  obtain a0 a1 a2 a3 a4 a5 a6 a7 a8 a9 a10 a11 a12 a13 a14 a15
    where a: "a = of_bytes [a0, a1, a2, a3, a4, a5, a6, a7, a8, a9, a10, a11, a12, a13, a14, a15]"
    by (rule simd128_bytes)
  obtain b0 b1 b2 b3 b4 b5 b6 b7 b8 b9 b10 b11 b12 b13 b14 b15
    where b: "b = of_bytes [b0, b1, b2, b3, b4, b5, b6, b7, b8, b9, b10, b11, b12, b13, b14, b15]"
    by (rule simd128_bytes)
  show ?thesis by (simp add: a b instr_v_defs ref_defs lane_defs)
qed

lemma mul16: "interleave_wd_v low (pmullw_v a b) (mul_high_v sg a b) = ref_I32x4ExtMul low sg a b"
proof -
  obtain a0 a1 a2 a3 a4 a5 a6 a7 a8 a9 a10 a11 a12 a13 a14 a15
    where a: "a = of_bytes [a0, a1, a2, a3, a4, a5, a6, a7, a8, a9, a10, a11, a12, a13, a14, a15]"
    by (rule simd128_bytes)
  obtain b0 b1 b2 b3 b4 b5 b6 b7 b8 b9 b10 b11 b12 b13 b14 b15
    where b: "b = of_bytes [b0, b1, b2, b3, b4, b5, b6, b7, b8, b9, b10, b11, b12, b13, b14, b15]"
    by (rule simd128_bytes)
  show ?thesis by (simp add: a b interleave_wd_v_def mul_high_v_def instr_v_defs ref_defs lane_defs)
qed

lemma dup_avx_low: "punpckldq_v a a = dup_half True a"
proof -
  obtain a0 a1 a2 a3 a4 a5 a6 a7 a8 a9 a10 a11 a12 a13 a14 a15
    where a: "a = of_bytes [a0, a1, a2, a3, a4, a5, a6, a7, a8, a9, a10, a11, a12, a13, a14, a15]"
    by (rule simd128_bytes)
  show ?thesis by (simp add: a dup_half_def instr_v_defs ref_defs lane_defs)
qed

lemma dup_avx_high: "punpckhdq_v a a = dup_half False a"
proof -
  obtain a0 a1 a2 a3 a4 a5 a6 a7 a8 a9 a10 a11 a12 a13 a14 a15
    where a: "a = of_bytes [a0, a1, a2, a3, a4, a5, a6, a7, a8, a9, a10, a11, a12, a13, a14, a15]"
    by (rule simd128_bytes)
  show ?thesis by (simp add: a dup_half_def instr_v_defs ref_defs lane_defs)
qed

lemma dup_sse_low: "pshufd_v a 0x50 = dup_half True a"
proof -
  obtain a0 a1 a2 a3 a4 a5 a6 a7 a8 a9 a10 a11 a12 a13 a14 a15
    where a: "a = of_bytes [a0, a1, a2, a3, a4, a5, a6, a7, a8, a9, a10, a11, a12, a13, a14, a15]"
    by (rule simd128_bytes)
  show ?thesis by (simp add: a dup_half_def instr_v_defs ref_defs lane_defs)
qed

lemma dup_sse_high: "pshufd_v a 0xFA = dup_half False a"
proof -
  obtain a0 a1 a2 a3 a4 a5 a6 a7 a8 a9 a10 a11 a12 a13 a14 a15
    where a: "a = of_bytes [a0, a1, a2, a3, a4, a5, a6, a7, a8, a9, a10, a11, a12, a13, a14, a15]"
    by (rule simd128_bytes)
  show ?thesis by (simp add: a dup_half_def instr_v_defs ref_defs lane_defs)
qed

lemma mul32: "mul_wide_v sg (dup_half low a) (dup_half low b) = ref_I64x2ExtMul low sg a b"
proof -
  obtain a0 a1 a2 a3 a4 a5 a6 a7 a8 a9 a10 a11 a12 a13 a14 a15
    where a: "a = of_bytes [a0, a1, a2, a3, a4, a5, a6, a7, a8, a9, a10, a11, a12, a13, a14, a15]"
    by (rule simd128_bytes)
  obtain b0 b1 b2 b3 b4 b5 b6 b7 b8 b9 b10 b11 b12 b13 b14 b15
    where b: "b = of_bytes [b0, b1, b2, b3, b4, b5, b6, b7, b8, b9, b10, b11, b12, b13, b14, b15]"
    by (rule simd128_bytes)
  show ?thesis by (simp add: a b dup_half_def mul_wide_v_def instr_v_defs ref_defs lane_defs)
qed

lemma mul_wide_commute: "mul_wide_v sg a b = mul_wide_v sg b a"
proof -
  obtain a0 a1 a2 a3 a4 a5 a6 a7 a8 a9 a10 a11 a12 a13 a14 a15
    where a: "a = of_bytes [a0, a1, a2, a3, a4, a5, a6, a7, a8, a9, a10, a11, a12, a13, a14, a15]"
    by (rule simd128_bytes)
  obtain b0 b1 b2 b3 b4 b5 b6 b7 b8 b9 b10 b11 b12 b13 b14 b15
    where b: "b = of_bytes [b0, b1, b2, b3, b4, b5, b6, b7, b8, b9, b10, b11, b12, b13, b14, b15]"
    by (rule simd128_bytes)
  show ?thesis by (simp add: a b mul_wide_v_def instr_v_defs lane_defs mult.commute)
qed

lemma pmullw_commute: "pmullw_v a b = pmullw_v b a"
proof -
  obtain a0 a1 a2 a3 a4 a5 a6 a7 a8 a9 a10 a11 a12 a13 a14 a15
    where a: "a = of_bytes [a0, a1, a2, a3, a4, a5, a6, a7, a8, a9, a10, a11, a12, a13, a14, a15]"
    by (rule simd128_bytes)
  obtain b0 b1 b2 b3 b4 b5 b6 b7 b8 b9 b10 b11 b12 b13 b14 b15
    where b: "b = of_bytes [b0, b1, b2, b3, b4, b5, b6, b7, b8, b9, b10, b11, b12, b13, b14, b15]"
    by (rule simd128_bytes)
  show ?thesis by (simp add: a b instr_v_defs lane_defs mult.commute)
qed


section \<open>Each operation against the scalar reference\<close>

lemma ref_I16x8ExtMulHigh_commute: "ref_I16x8ExtMulHigh sg a b = ref_I16x8ExtMulHigh sg b a"
  by (metis mul8 pmullw_commute)

lemma ref_I64x2ExtMul_commute: "ref_I64x2ExtMul low sg a b = ref_I64x2ExtMul low sg b a"
  by (metis mul32 mul_wide_commute)

lemma mul16_cases:
  "punpcklwd_v (pmullw_v a b) (pmulhw_v a b) = ref_I32x4ExtMul True True a b"
  "punpcklwd_v (pmullw_v a b) (pmulhuw_v a b) = ref_I32x4ExtMul True False a b"
  "punpckhwd_v (pmullw_v a b) (pmulhw_v a b) = ref_I32x4ExtMul False True a b"
  "punpckhwd_v (pmullw_v a b) (pmulhuw_v a b) = ref_I32x4ExtMul False False a b"
  using mul16 [of True a b True] mul16 [of True a b False]
    mul16 [of False a b True] mul16 [of False a b False]
  by (simp_all add: interleave_wd_v_def mul_high_v_def)

lemma mul32_cases:
  "pmuldq_v (dup_half low a) (dup_half low b) = ref_I64x2ExtMul low True a b"
  "pmuludq_v (dup_half low a) (dup_half low b) = ref_I64x2ExtMul low False a b"
  using mul32 [of True low a b] mul32 [of False low a b]
  by (simp_all add: mul_wide_v_def)

lemmas dup_simps = dup_avx_low dup_avx_high dup_sse_low dup_sse_high

lemma I16x8ExtMulHighS_correct:
  assumes "scratch \<noteq> dst" "scratch \<noteq> src1" "scratch \<noteq> src2"
    and "IsSupported cpu AVX \<or> dst \<noteq> src2 \<or> src1 = src2"
  shows "run (I16x8ExtMulHighS cpu dst src1 src2 scratch) s dst =
         ref_I16x8ExtMulHigh True (s src1) (s src2)"
  using assms
  by (auto simp add: I16x8ExtMulHighS_def cvt8_s_avx mul8 ref_I16x8ExtMulHigh_commute)

lemma I16x8ExtMulHighU_correct:
  assumes "scratch \<noteq> dst" "scratch \<noteq> src1" "scratch \<noteq> src2"
    and "IsSupported cpu AVX \<or> src1 \<noteq> src2"
  shows "run (I16x8ExtMulHighU cpu dst src1 src2 scratch) s dst =
         ref_I16x8ExtMulHigh False (s src1) (s src2)"
  using assms
  by (auto simp add: I16x8ExtMulHighU_def cvt8_u_unpck cvt8_u_unpck_shift mul8
      ref_I16x8ExtMulHigh_commute)

lemma I32x4ExtMul_correct:
  assumes "scratch \<noteq> dst" "scratch \<noteq> src1" "scratch \<noteq> src2"
    and "IsSupported cpu AVX \<or> (dst = src1 \<and> src2 \<noteq> dst)"
  shows "reg_of dst (run_checked (I32x4ExtMul cpu debug dst src1 src2 scratch low is_signed) s) =
         Inr (ref_I32x4ExtMul low is_signed (s src1) (s src2))"
  using assms
  by (cases low; cases is_signed) (auto simp add: I32x4ExtMul_def mul16_cases)

lemma I64x2ExtMul_correct:
  assumes "scratch \<noteq> dst" "scratch \<noteq> src2"
  shows "run (I64x2ExtMul cpu dst src1 src2 scratch low is_signed) s dst =
         ref_I64x2ExtMul low is_signed (s src1) (s src2)"
  using assms
  by (cases low; cases is_signed)
    (auto simp add: I64x2ExtMul_def dup_simps mul32_cases ref_I64x2ExtMul_commute)

lemma I16x8SConvertI8x16High_correct:
  "run (I16x8SConvertI8x16High cpu dst src) s dst = ref_ConvertI8x16High True (s src)"
  by (auto simp add: I16x8SConvertI8x16High_def cvt8_s_avx cvt8_s_movhlps cvt8_s_pshufd)

lemma I16x8UConvertI8x16High_correct:
  assumes "scratch \<noteq> dst" "scratch \<noteq> src"
  shows "run (I16x8UConvertI8x16High cpu dst src scratch) s dst = ref_ConvertI8x16High False (s src)"
  using assms
  by (auto simp add: I16x8UConvertI8x16High_def cvt8_u_unpck cvt8_u_pshufd)

lemma I32x4SConvertI16x8High_correct:
  "run (I32x4SConvertI16x8High cpu dst src) s dst = ref_ConvertI16x8High True (s src)"
  by (auto simp add: I32x4SConvertI16x8High_def cvt16_s_avx cvt16_s_movhlps cvt16_s_pshufd)

lemma I32x4UConvertI16x8High_correct:
  assumes "scratch \<noteq> dst" "scratch \<noteq> src"
  shows "run (I32x4UConvertI16x8High cpu dst src scratch) s dst = ref_ConvertI16x8High False (s src)"
  using assms
  by (auto simp add: I32x4UConvertI16x8High_def cvt16_u_unpck cvt16_u_pshufd)

lemma I64x2SConvertI32x4High_correct:
  "run (I64x2SConvertI32x4High cpu dst src) s dst = ref_ConvertI32x4High True (s src)"
  by (auto simp add: I64x2SConvertI32x4High_def cvt32_s_avx cvt32_s_movhlps cvt32_s_pshufd)

lemma I64x2UConvertI32x4High_correct:
  assumes "scratch \<noteq> dst" "scratch \<noteq> src"
  shows "run (I64x2UConvertI32x4High cpu dst src scratch) s dst = ref_ConvertI32x4High False (s src)"
  using assms
  by (auto simp add: I64x2UConvertI32x4High_def cvt32_u_unpck)


section \<open>Evaluating calls on concrete register files\<close>

lemma of_bytes_inject:
  "length xs = 16 \<Longrightarrow> length ys = 16 \<Longrightarrow> of_bytes xs = of_bytes ys \<longleftrightarrow> xs = ys"
  by (metis to_bytes_of_bytes)

lemmas concrete_defs = avx_cpu_def sse_cpu_def IsSupported_def word_cat_eq

lemmas emitter_defs = I16x8ExtMulHighS_def I16x8ExtMulHighU_def I16x8SConvertI8x16High_def
  I16x8UConvertI8x16High_def I32x4ExtMul_def I32x4SConvertI16x8High_def
  I32x4UConvertI16x8High_def I64x2ExtMul_def I64x2SConvertI32x4High_def
  I64x2UConvertI32x4High_def

text \<open>
  In a debug build the legacy form of the general 32-bit extended multiply stops at its
  check whenever the destination is another register than source-1; a release build
  emits the same four instructions whether or not the two coincide, without a copy.
\<close>

lemma I32x4ExtMul_legacy_dcheck:
  assumes "\<not> IsSupported cpu AVX" and "dst \<noteq> src1"
  shows "I32x4ExtMul cpu True dst src1 src2 scratch low is_signed = Inl DCheckFailed"
  using assms by (simp add: I32x4ExtMul_def)

lemma I32x4ExtMul_legacy_release_no_copy:
  assumes "\<not> IsSupported cpu AVX"
  shows "I32x4ExtMul cpu False dst src1 src2 scratch low is_signed =
         Inr [movaps scratch src1,
              pmullw dst src2,
              (if is_signed then pmulhw scratch src2 else pmulhuw scratch src2),
              (if low then punpcklwd dst scratch else punpckhwd dst scratch)]"
  using assms by (simp add: I32x4ExtMul_def)


section \<open>The claims\<close>

subsection \<open>C1: every operation against the scalar reference\<close>

text \<open>
  The claim C1 as stated (every extended multiply and extend-high operation leaves the
  reference result in the destination, for every aliasing of destination and sources
  and both feature settings) fails where the legacy form of the general 32-bit
  extended multiply is called with a destination that is another register than
  source-1: a release build multiplies the old contents of the destination, a debug
  build stops at the check.
\<close>

theorem I32x4ExtMul_legacy_unaliased_dst_counterexample:
  "reg_of 0 (run_checked (I32x4ExtMul sse_cpu False 0 1 2 3 True True) regs_splat8) \<noteq>
     Inr (ref_I32x4ExtMul True True (regs_splat8 1) (regs_splat8 2)) \<and>
   reg_of 0 (run_checked (I32x4ExtMul sse_cpu True 0 1 2 3 True True) regs_splat8) \<noteq>
     Inr (ref_I32x4ExtMul True True (regs_splat8 1) (regs_splat8 2))"
  by (simp add: I32x4ExtMul_def concrete_defs regs_splat8_def splat8_def
      instr_v_defs ref_defs lane_defs of_bytes_inject)

text \<open>
  C1, amended. Let scratch be a register other than the destination and the sources.
  Then the destination holds the result of the scalar reference after
  \<^item> the signed narrow high multiply, with the extended form, or in the legacy form when
    the destination is not source-2 or the two sources are one register;
  \<^item> the unsigned narrow high multiply, with the extended form, or in the legacy form
    when the two sources are different registers;
  \<^item> the general 32-bit extended multiply, with the extended form, or in the legacy form
    when the destination is source-1 and source-2 is another register;
  \<^item> the 64-bit extended multiply and the six extend-high operations, for every
    aliasing of destination and sources and both feature settings.
\<close>

theorem widening_ops_match_reference:
  assumes "scratch \<noteq> dst" and "scratch \<noteq> src1" and "scratch \<noteq> src2"
  shows
    "(IsSupported cpu AVX \<or> dst \<noteq> src2 \<or> src1 = src2 \<longrightarrow>
        run (I16x8ExtMulHighS cpu dst src1 src2 scratch) s dst =
        ref_I16x8ExtMulHigh True (s src1) (s src2)) \<and>
     (IsSupported cpu AVX \<or> src1 \<noteq> src2 \<longrightarrow>
        run (I16x8ExtMulHighU cpu dst src1 src2 scratch) s dst =
        ref_I16x8ExtMulHigh False (s src1) (s src2)) \<and>
     (IsSupported cpu AVX \<or> (dst = src1 \<and> src2 \<noteq> dst) \<longrightarrow>
        reg_of dst (run_checked (I32x4ExtMul cpu debug dst src1 src2 scratch low is_signed) s) =
        Inr (ref_I32x4ExtMul low is_signed (s src1) (s src2))) \<and>
     run (I64x2ExtMul cpu dst src1 src2 scratch low is_signed) s dst =
       ref_I64x2ExtMul low is_signed (s src1) (s src2) \<and>
     run (I16x8SConvertI8x16High cpu dst src1) s dst = ref_ConvertI8x16High True (s src1) \<and>
     run (I16x8UConvertI8x16High cpu dst src1 scratch) s dst =
       ref_ConvertI8x16High False (s src1) \<and>
     run (I32x4SConvertI16x8High cpu dst src1) s dst = ref_ConvertI16x8High True (s src1) \<and>
     run (I32x4UConvertI16x8High cpu dst src1 scratch) s dst =
       ref_ConvertI16x8High False (s src1) \<and>
     run (I64x2SConvertI32x4High cpu dst src1) s dst = ref_ConvertI32x4High True (s src1) \<and>
     run (I64x2UConvertI32x4High cpu dst src1 scratch) s dst =
       ref_ConvertI32x4High False (s src1)"
  using assms
  by (simp add: I16x8ExtMulHighS_correct I16x8ExtMulHighU_correct I32x4ExtMul_correct
      I64x2ExtMul_correct I16x8SConvertI8x16High_correct I16x8UConvertI8x16High_correct
      I32x4SConvertI16x8High_correct I32x4UConvertI16x8High_correct
      I64x2SConvertI32x4High_correct I64x2UConvertI32x4High_correct)

theorem widening_ops_match_reference_witness:
  "run (I16x8ExtMulHighS sse_cpu 0 0 1 2) regs_splat8 0 =
     ref_I16x8ExtMulHigh True (regs_splat8 0) (regs_splat8 1) \<and>
   run (I16x8ExtMulHighU sse_cpu 0 0 1 2) regs_splat8 0 =
     ref_I16x8ExtMulHigh False (regs_splat8 0) (regs_splat8 1) \<and>
   reg_of 0 (run_checked (I32x4ExtMul sse_cpu True 0 0 1 2 True True) regs_splat8) =
     Inr (ref_I32x4ExtMul True True (regs_splat8 0) (regs_splat8 1)) \<and>
   run (I64x2ExtMul sse_cpu 0 0 1 2 True True) regs_splat8 0 =
     ref_I64x2ExtMul True True (regs_splat8 0) (regs_splat8 1) \<and>
   run (I16x8UConvertI8x16High sse_cpu 0 0 2) regs_splat8 0 =
     ref_ConvertI8x16High False (regs_splat8 0)"
  using widening_ops_match_reference [where scratch = 2 and dst = 0 and ?src1.0 = 0 and ?src2.0 = 1
      and cpu = sse_cpu and s = regs_splat8 and debug = True and low = True and is_signed = True]
  by (simp add: sse_cpu_def IsSupported_def)


subsection \<open>C2: the feature query and the result\<close>

text \<open>
  C2 says that the legacy form leaves the same value in the destination as the extended
  form. For the unsigned narrow high multiply called with destination and both sources
  being one register that holds the bytes 1 to 16, the extended form leaves the squares
  of 9 to 16 and the legacy form leaves zero in every lane: it multiplies by the
  scratch register it has just cleared.
\<close>

theorem I16x8ExtMulHighU_legacy_square_is_zero:
  "run (I16x8ExtMulHighU avx_cpu 0 0 0 1) regs_bytes_1_16 0 =
     of_lanes16 [81, 100, 121, 144, 169, 196, 225, 256] \<and>
   run (I16x8ExtMulHighU sse_cpu 0 0 0 1) regs_bytes_1_16 0 =
     of_lanes16 [0, 0, 0, 0, 0, 0, 0, 0] \<and>
   run (I16x8ExtMulHighU avx_cpu 0 0 0 1) regs_bytes_1_16 0 \<noteq>
     run (I16x8ExtMulHighU sse_cpu 0 0 0 1) regs_bytes_1_16 0"
  by (simp add: I16x8ExtMulHighU_def concrete_defs regs_bytes_1_16_def instr_v_defs lane_defs zero_bytes
      of_bytes_inject)


subsection \<open>C3: one handle for both sources of the unsigned narrow high multiply\<close>

text \<open>
  C3 says that passing one handle for both sources gives the result of passing two
  handles that hold equal values. In the legacy form, with every register holding the
  bytes 1 to 16, the call with one handle leaves zero in every lane and the call with
  two handles leaves the squares of 9 to 16.
\<close>

theorem I16x8ExtMulHighU_legacy_self_alias_differs:
  "regs_bytes_1_16 1 = regs_bytes_1_16 2 \<and>
   run (I16x8ExtMulHighU sse_cpu 0 1 1 3) regs_bytes_1_16 0 =
     of_lanes16 [0, 0, 0, 0, 0, 0, 0, 0] \<and>
   run (I16x8ExtMulHighU sse_cpu 0 1 2 3) regs_bytes_1_16 0 =
     of_lanes16 [81, 100, 121, 144, 169, 196, 225, 256]"
  by (simp add: I16x8ExtMulHighU_def concrete_defs regs_bytes_1_16_def instr_v_defs lane_defs zero_bytes)


subsection \<open>C4: the squares of 9 to 16\<close>

text \<open>
  C4: with the extended form available and both sources holding the bytes 1 to 16, the
  signed narrow high multiply leaves the 16-bit lanes 81, 100, 121, 144, 169, 196, 225,
  256 in the destination. The scratch register must not be source-2, whose value is
  read after scratch is written.
\<close>

theorem I16x8ExtMulHighS_squares_high_bytes:
  assumes "IsSupported cpu AVX"
    and "s src1 = of_bytes [1, 2, 3, 4, 5, 6, 7, 8, 9, 10, 11, 12, 13, 14, 15, 16]"
    and "s src2 = of_bytes [1, 2, 3, 4, 5, 6, 7, 8, 9, 10, 11, 12, 13, 14, 15, 16]"
    and "scratch \<noteq> src2"
  shows "lanes16 (run (I16x8ExtMulHighS cpu dst src1 src2 scratch) s dst) =
         [81, 100, 121, 144, 169, 196, 225, 256]"
  using assms
  by (auto simp add: I16x8ExtMulHighS_def instr_v_defs lane_defs word_cat_eq)

theorem I16x8ExtMulHighS_squares_high_bytes_witness:
  "lanes16 (run (I16x8ExtMulHighS avx_cpu 0 1 1 2) regs_bytes_1_16 0) =
   [81, 100, 121, 144, 169, 196, 225, 256]"
  using I16x8ExtMulHighS_squares_high_bytes [where cpu = avx_cpu and s = regs_bytes_1_16
      and ?src1.0 = 1 and ?src2.0 = 1 and scratch = 2 and dst = 0]
  by (simp add: avx_cpu_def IsSupported_def regs_bytes_1_16_def)


subsection \<open>C5: the precondition of the legacy general 32-bit extended multiply\<close>

text \<open>
  C5 says that under the hypothesis of the check (destination equal to source-1) the
  legacy form computes the specified result. With destination, source-1 and source-2
  being one register whose 16-bit lanes all hold 256, a debug build passes the check,
  and the destination ends with 0 in every 32-bit lane where the reference has 65536:
  the low multiply has overwritten source-2 before the high multiply reads it.
\<close>

theorem I32x4ExtMul_legacy_square_wrong:
  "I32x4ExtMul sse_cpu True 0 0 0 1 True True \<noteq> Inl DCheckFailed \<and>
   reg_of 0 (run_checked (I32x4ExtMul sse_cpu True 0 0 0 1 True True) regs_splat16) =
     Inr (of_lanes32 [0, 0, 0, 0]) \<and>
   ref_I32x4ExtMul True True (regs_splat16 0) (regs_splat16 0) =
     of_lanes32 [65536, 65536, 65536, 65536] \<and>
   of_lanes32 [0, 0, 0, 0] \<noteq> of_lanes32 [65536, 65536, 65536, 65536]"
  by (simp add: I32x4ExtMul_def concrete_defs regs_splat16_def splat16_def
      instr_v_defs ref_defs lane_defs of_bytes_inject)


subsection \<open>C6: exchanging the sources of a multiply\<close>

text \<open>
  C6 says that exchanging source-1 and source-2 leaves the result unchanged. In the
  legacy form of the signed narrow high multiply, with register 0 holding bytes of
  value 1 and register 1 bytes of value 2, the call with the destination as source-2
  leaves 4 in every lane (the copy of source-1 into the destination has overwritten
  source-2) and the exchanged call leaves 2.
\<close>

theorem I16x8ExtMulHighS_legacy_swap_differs:
  "run (I16x8ExtMulHighS sse_cpu 0 1 0 2) regs_splat8 0 = of_lanes16 [4, 4, 4, 4, 4, 4, 4, 4] \<and>
   run (I16x8ExtMulHighS sse_cpu 0 0 1 2) regs_splat8 0 = of_lanes16 [2, 2, 2, 2, 2, 2, 2, 2] \<and>
   of_lanes16 [4, 4, 4, 4, 4, 4, 4, 4] \<noteq> of_lanes16 [2, 2, 2, 2, 2, 2, 2, 2]"
  by (simp add: I16x8ExtMulHighS_def concrete_defs regs_splat8_def splat8_def
      instr_v_defs lane_defs of_bytes_inject)


subsection \<open>C7: the steps of the general 32-bit extended multiply\<close>

text \<open>
  The claim C7 as stated (in both feature settings the low words go to scratch and the
  high words to the destination) fails in the legacy form: there scratch ends with the
  high words of the products, not the low ones.
\<close>

theorem I32x4ExtMul_legacy_steps_counterexample:
  "reg_of 2 (run_checked (I32x4ExtMul sse_cpu True 0 0 1 2 True True) regs_splat16) \<noteq>
   Inr (I32x4ExtMul_steps 0 0 1 2 True True regs_splat16 2)"
  by (simp add: I32x4ExtMul_def I32x4ExtMul_steps_def mul_high_v_def interleave_wd_v_def
      concrete_defs regs_splat16_def splat16_def
      instr_v_defs lane_defs of_bytes_inject)

text \<open>
  C7, amended. With the extended form the operation multiplies the low words into
  scratch and the high words (signed or unsigned by the flag) into the destination, and
  interleaves scratch and destination into the destination, low or high halves by the
  flag. In the legacy form (past the check of a debug build) it copies source-1 into
  scratch, multiplies the low words into the destination and the high words into
  scratch, and interleaves destination and scratch into the destination. So, with
  scratch apart from the other registers, scratch ends with the low words of the
  products in the extended form and, when the destination is source-1 and source-2 is
  another register, with their high words in the legacy form; the destination ends
  with the same interleaving of low and high words in both.
\<close>

theorem I32x4ExtMul_steps_by_form:
  "run_checked (I32x4ExtMul cpu debug dst src1 src2 scratch low is_signed) s =
     (if IsSupported cpu AVX then
        Inr (I32x4ExtMul_steps dst src1 src2 scratch low is_signed s)
      else if debug \<and> dst \<noteq> src1 then
        Inl DCheckFailed
      else
        Inr (I32x4ExtMul_legacy_steps dst src1 src2 scratch low is_signed s)) \<and>
   (scratch \<noteq> dst \<and> scratch \<noteq> src1 \<and> scratch \<noteq> src2 \<longrightarrow>
      I32x4ExtMul_steps dst src1 src2 scratch low is_signed s scratch =
        pmullw_v (s src1) (s src2) \<and>
      I32x4ExtMul_steps dst src1 src2 scratch low is_signed s dst =
        interleave_wd_v low (pmullw_v (s src1) (s src2))
          (mul_high_v is_signed (s src1) (s src2))) \<and>
   (scratch \<noteq> dst \<and> scratch \<noteq> src2 \<and> dst = src1 \<and> src2 \<noteq> dst \<longrightarrow>
      I32x4ExtMul_legacy_steps dst src1 src2 scratch low is_signed s scratch =
        mul_high_v is_signed (s src1) (s src2) \<and>
      I32x4ExtMul_legacy_steps dst src1 src2 scratch low is_signed s dst =
        interleave_wd_v low (pmullw_v (s src1) (s src2))
          (mul_high_v is_signed (s src1) (s src2)))"
  by (auto simp add: I32x4ExtMul_def I32x4ExtMul_steps_def I32x4ExtMul_legacy_steps_def
      mul_high_v_def interleave_wd_v_def Let_def)

theorem I32x4ExtMul_steps_by_form_witness:
  "run_checked (I32x4ExtMul sse_cpu True 0 0 1 2 True True) regs_splat16 =
     Inr (I32x4ExtMul_legacy_steps 0 0 1 2 True True regs_splat16) \<and>
   I32x4ExtMul_legacy_steps 0 0 1 2 True True regs_splat16 2 =
     mul_high_v True (regs_splat16 0) (regs_splat16 1) \<and>
   I32x4ExtMul_legacy_steps 0 0 1 2 True True regs_splat16 0 =
     interleave_wd_v True (pmullw_v (regs_splat16 0) (regs_splat16 1))
       (mul_high_v True (regs_splat16 0) (regs_splat16 1)) \<and>
   run_checked (I32x4ExtMul avx_cpu True 0 0 1 2 True True) regs_splat16 =
     Inr (I32x4ExtMul_steps 0 0 1 2 True True regs_splat16) \<and>
   I32x4ExtMul_steps 0 0 1 2 True True regs_splat16 2 =
     pmullw_v (regs_splat16 0) (regs_splat16 1)"
  using I32x4ExtMul_steps_by_form [where cpu = sse_cpu and debug = True and dst = 0
      and ?src1.0 = 0 and ?src2.0 = 1 and scratch = 2 and low = True and is_signed = True
      and s = regs_splat16]
    I32x4ExtMul_steps_by_form [where cpu = avx_cpu and debug = True and dst = 0
      and ?src1.0 = 0 and ?src2.0 = 1 and scratch = 2 and low = True and is_signed = True
      and s = regs_splat16]
  by (simp add: sse_cpu_def avx_cpu_def IsSupported_def)


subsection \<open>C8: the 64-bit extended multiply\<close>

text \<open>
  The claim C8 as stated (the even sub-lanes are duplicated when the low flag is set)
  fails: with source-1 holding the sub-lanes 2, 3, 4, 5 and source-2 holding 3, 4, 5, 6,
  the result for the low flag is not the product of the duplicated even sub-lanes, and
  scratch after the duplication is not the duplicated even sub-lanes of source-1.
\<close>

theorem I64x2ExtMul_even_sublanes_counterexample:
  "run (I64x2ExtMul avx_cpu 0 1 2 3 True True) regs_count32 0 \<noteq>
     mul_wide_v True (dup_even_odd True (regs_count32 1)) (dup_even_odd True (regs_count32 2)) \<and>
   run (take 2 (I64x2ExtMul avx_cpu 0 1 2 3 True True)) regs_count32 3 \<noteq>
     dup_even_odd True (regs_count32 1)"
  by (simp add: I64x2ExtMul_def dup_even_odd_def mul_wide_v_def
      concrete_defs regs_count32_def
      instr_v_defs lane_defs of_bytes_inject)

text \<open>
  C8, amended. The first two instructions duplicate the two 32-bit sub-lanes of the low
  half (low flag set: sub-lanes 0 and 1) or of the high half (low flag clear: sub-lanes
  2 and 3) of source-1 into scratch and of source-2 into the destination; the result is
  the signed or unsigned widening multiply of the two, which is the reference result.
  This holds for every aliasing of destination, source-1 and source-2, with no copy or
  exchange, provided scratch is neither the destination nor source-2.
\<close>

theorem I64x2ExtMul_duplicates_half_then_multiplies:
  assumes "scratch \<noteq> dst" and "scratch \<noteq> src2"
  shows
    "run (take 2 (I64x2ExtMul cpu dst src1 src2 scratch low is_signed)) s scratch =
       dup_half low (s src1) \<and>
     run (take 2 (I64x2ExtMul cpu dst src1 src2 scratch low is_signed)) s dst =
       dup_half low (s src2) \<and>
     run (I64x2ExtMul cpu dst src1 src2 scratch low is_signed) s dst =
       mul_wide_v is_signed (dup_half low (s src1)) (dup_half low (s src2)) \<and>
     run (I64x2ExtMul cpu dst src1 src2 scratch low is_signed) s dst =
       ref_I64x2ExtMul low is_signed (s src1) (s src2)"
  using assms
  by (cases low; cases is_signed)
    (auto simp add: I64x2ExtMul_def dup_simps mul32_cases mul_wide_v_def
      ref_I64x2ExtMul_commute)

theorem I64x2ExtMul_duplicates_half_then_multiplies_witness:
  "run (take 2 (I64x2ExtMul sse_cpu 0 0 1 2 False True)) regs_count32 2 =
     dup_half False (regs_count32 0) \<and>
   run (take 2 (I64x2ExtMul sse_cpu 0 0 1 2 False True)) regs_count32 0 =
     dup_half False (regs_count32 1) \<and>
   run (I64x2ExtMul sse_cpu 0 0 1 2 False True) regs_count32 0 =
     mul_wide_v True (dup_half False (regs_count32 0)) (dup_half False (regs_count32 1)) \<and>
   run (I64x2ExtMul sse_cpu 0 0 1 2 False True) regs_count32 0 =
     ref_I64x2ExtMul False True (regs_count32 0) (regs_count32 1)"
  by (rule I64x2ExtMul_duplicates_half_then_multiplies [where scratch = 2 and dst = 0
      and ?src1.0 = 0 and ?src2.0 = 1 and cpu = sse_cpu and s = regs_count32
      and low = False and is_signed = True]) simp_all


subsection \<open>C9: the initial contents of scratch\<close>

text \<open>
  C9: for every operation that takes a scratch register other than the destination and
  the sources, two runs that differ only in the initial contents of scratch leave the
  same value in the destination.
\<close>

theorem scratch_contents_irrelevant:
  assumes "scratch \<noteq> dst" and "scratch \<noteq> src1" and "scratch \<noteq> src2"
  shows
    "run (I16x8ExtMulHighS cpu dst src1 src2 scratch) (s(scratch := x)) dst =
       run (I16x8ExtMulHighS cpu dst src1 src2 scratch) s dst \<and>
     run (I16x8ExtMulHighU cpu dst src1 src2 scratch) (s(scratch := x)) dst =
       run (I16x8ExtMulHighU cpu dst src1 src2 scratch) s dst \<and>
     run (I16x8UConvertI8x16High cpu dst src1 scratch) (s(scratch := x)) dst =
       run (I16x8UConvertI8x16High cpu dst src1 scratch) s dst \<and>
     reg_of dst (run_checked (I32x4ExtMul cpu debug dst src1 src2 scratch low is_signed)
                  (s(scratch := x))) =
       reg_of dst (run_checked (I32x4ExtMul cpu debug dst src1 src2 scratch low is_signed) s) \<and>
     run (I32x4UConvertI16x8High cpu dst src1 scratch) (s(scratch := x)) dst =
       run (I32x4UConvertI16x8High cpu dst src1 scratch) s dst \<and>
     run (I64x2ExtMul cpu dst src1 src2 scratch low is_signed) (s(scratch := x)) dst =
       run (I64x2ExtMul cpu dst src1 src2 scratch low is_signed) s dst \<and>
     run (I64x2UConvertI32x4High cpu dst src1 scratch) (s(scratch := x)) dst =
       run (I64x2UConvertI32x4High cpu dst src1 scratch) s dst"
  using assms
  by (cases low; cases is_signed) (auto simp add: emitter_defs)

theorem scratch_contents_irrelevant_witness:
  "run (I16x8ExtMulHighS sse_cpu 0 1 2 3) (regs_splat8(3 := 0)) 0 =
     run (I16x8ExtMulHighS sse_cpu 0 1 2 3) regs_splat8 0 \<and>
   run (I16x8ExtMulHighU sse_cpu 0 1 2 3) (regs_splat8(3 := 0)) 0 =
     run (I16x8ExtMulHighU sse_cpu 0 1 2 3) regs_splat8 0 \<and>
   reg_of 0 (run_checked (I32x4ExtMul sse_cpu False 0 1 2 3 True True) (regs_splat8(3 := 0))) =
     reg_of 0 (run_checked (I32x4ExtMul sse_cpu False 0 1 2 3 True True) regs_splat8) \<and>
   run (I64x2ExtMul sse_cpu 0 1 2 3 True True) (regs_splat8(3 := 0)) 0 =
     run (I64x2ExtMul sse_cpu 0 1 2 3 True True) regs_splat8 0"
  using scratch_contents_irrelevant [where scratch = 3 and dst = 0 and ?src1.0 = 1
      and ?src2.0 = 2 and cpu = sse_cpu and s = regs_splat8 and x = 0 and debug = False
      and low = True and is_signed = True]
  by simp


subsection \<open>C10: only destination and scratch are written\<close>

text \<open>
  C10: after every operation, a register that is neither the destination nor scratch
  holds the value it held before. (A debug build that stops at the check of the general
  32-bit extended multiply has executed nothing.)
\<close>

theorem only_dst_and_scratch_written:
  assumes "r \<noteq> dst" and "r \<noteq> scratch"
  shows
    "run (I16x8ExtMulHighS cpu dst src1 src2 scratch) s r = s r \<and>
     run (I16x8ExtMulHighU cpu dst src1 src2 scratch) s r = s r \<and>
     run (I16x8SConvertI8x16High cpu dst src1) s r = s r \<and>
     run (I16x8UConvertI8x16High cpu dst src1 scratch) s r = s r \<and>
     reg_of r (run_checked (I32x4ExtMul cpu debug dst src1 src2 scratch low is_signed) s) =
       (if \<not> IsSupported cpu AVX \<and> debug \<and> dst \<noteq> src1 then Inl DCheckFailed
        else Inr (s r)) \<and>
     run (I32x4SConvertI16x8High cpu dst src1) s r = s r \<and>
     run (I32x4UConvertI16x8High cpu dst src1 scratch) s r = s r \<and>
     run (I64x2ExtMul cpu dst src1 src2 scratch low is_signed) s r = s r \<and>
     run (I64x2SConvertI32x4High cpu dst src1) s r = s r \<and>
     run (I64x2UConvertI32x4High cpu dst src1 scratch) s r = s r"
  using assms
  by (cases low; cases is_signed) (auto simp add: emitter_defs)

theorem only_dst_and_scratch_written_witness:
  "run (I16x8ExtMulHighS sse_cpu 0 1 2 3) regs_splat8 1 = regs_splat8 1 \<and>
   run (I16x8UConvertI8x16High avx_cpu 0 1 3) regs_splat8 1 = regs_splat8 1 \<and>
   run (I64x2ExtMul sse_cpu 0 1 2 3 True True) regs_splat8 1 = regs_splat8 1 \<and>
   reg_of 1 (run_checked (I32x4ExtMul sse_cpu False 0 1 2 3 True True) regs_splat8) =
     Inr (regs_splat8 1)"
  using only_dst_and_scratch_written [where r = 1 and dst = 0 and scratch = 3
      and ?src1.0 = 1 and ?src2.0 = 2 and cpu = sse_cpu and s = regs_splat8
      and debug = False and low = True and is_signed = True]
    only_dst_and_scratch_written [where r = 1 and dst = 0 and scratch = 3
      and ?src1.0 = 1 and ?src2.0 = 2 and cpu = avx_cpu and s = regs_splat8
      and debug = False and low = True and is_signed = True]
  by simp

end
